theory Spec2Isabelle
  imports Complex_Main
begin

section \<open>Values, errors and the external capabilities\<close>

text \<open>
  The Python exceptions that the modelled functions can raise.  \<open>KeyError\<close> comes from
  \<^verbatim>\<open>text_item['text']\<close> on a record without that key, \<open>TypeError\<close> from the
  \<^verbatim>\<open>TextBlob(text)\<close> constructor on a value that is not a string, and
  \<open>AttributeError\<close> from \<^verbatim>\<open>text.lower()\<close> on a value without that method.
\<close>

datatype error = KeyError | TypeError | AttributeError

text \<open>
  The Python values that occur in the records and in the table rows.  A float is read as
  a real number: the code only compares polarities with zero and takes absolute values,
  which are exact on floats (\<open>nan\<close> is not produced by the sentiment model).
\<close>

datatype pyval = PStr string | PInt int | PFloat real | PList "string list" | PNone

text \<open>
  The three library calls of \<^verbatim>\<open>sentiment_analyzer.py\<close> are parameters of the model:
  \<^item> \<open>stopwords_words\<close> is \<^verbatim>\<open>stopwords.words('english')\<close>, \<open>None\<close> when the call
    raises \<^verbatim>\<open>LookupError\<close> (the NLTK corpus is not installed);
  \<^item> \<open>word_tokenize\<close> is \<^verbatim>\<open>nltk.tokenize.word_tokenize\<close>, \<open>None\<close> when it raises
    \<^verbatim>\<open>LookupError\<close>;
  \<^item> \<open>blob_sentiment\<close> is \<^verbatim>\<open>TextBlob(text).sentiment\<close>, the pair of polarity and
    subjectivity.
\<close>

record nlp =
  stopwords_words :: "string list option"
  word_tokenize :: "string \<Rightarrow> string list option"
  blob_sentiment :: "string \<Rightarrow> real \<times> real"

section \<open>The sentiment classifier\<close>

text \<open>
  \<^verbatim>\<open>analyze_sentiment_textblob(text)\<close>: the result is the tuple
  \<open>(sentiment, confidence, polarity, subjectivity)\<close>.
\<close>

definition analyze_sentiment_textblob ::
  "nlp \<Rightarrow> pyval \<Rightarrow> error + (string \<times> real \<times> real \<times> real)" where
  "analyze_sentiment_textblob env text =
     (case text of
        PStr s \<Rightarrow>
          (let polarity = fst (blob_sentiment env s);
               subjectivity = snd (blob_sentiment env s);
               sentiment = (if polarity > 0 then ''Positive''
                            else if polarity < 0 then ''Negative''
                            else ''Neutral'');
               confidence = \<bar>polarity\<bar>
           in Inr (sentiment, confidence, polarity, subjectivity))
      | _ \<Rightarrow> Inl TypeError)"

section \<open>Strings\<close>

text \<open>
  A \<open>string\<close> is the list of the characters of a Python \<^verbatim>\<open>str\<close>, one \<open>char\<close> for
  each code point; the model covers the code points 0 to 255 (Latin-1), with Python's
  classification of each of them.  On these, \<^verbatim>\<open>str.lower\<close> works character by
  character, \<^verbatim>\<open>str.isalpha\<close> holds of a non-empty string of letters, and
  \<^verbatim>\<open>str.split()\<close> cuts at runs of white space.  Text with code points above 255 is
  outside this model; the section on Unicode text below models the extractor for it.
\<close>

definition isupper_char :: "char \<Rightarrow> bool" where
  "isupper_char c =
     (let n = (of_char c :: nat)
      in (65 \<le> n \<and> n \<le> 90) \<or> (192 \<le> n \<and> n \<le> 214) \<or> (216 \<le> n \<and> n \<le> 222))"

definition isalpha_char :: "char \<Rightarrow> bool" where
  "isalpha_char c =
     (let n = (of_char c :: nat)
      in (65 \<le> n \<and> n \<le> 90) \<or> (97 \<le> n \<and> n \<le> 122) \<or> n = 170 \<or> n = 181 \<or> n = 186 \<or>
         (192 \<le> n \<and> n \<le> 214) \<or> (216 \<le> n \<and> n \<le> 246) \<or> (248 \<le> n \<and> n \<le> 255))"

definition isspace_char :: "char \<Rightarrow> bool" where
  "isspace_char c =
     (let n = (of_char c :: nat)
      in (9 \<le> n \<and> n \<le> 13) \<or> (28 \<le> n \<and> n \<le> 32) \<or> n = 133 \<or> n = 160)"

definition lower_char :: "char \<Rightarrow> char" where
  "lower_char c = (if isupper_char c then char_of ((of_char c :: nat) + 32) else c)"

definition str_lower :: "string \<Rightarrow> string" where
  "str_lower s = map lower_char s"

definition str_isalpha :: "string \<Rightarrow> bool" where
  "str_isalpha w = (w \<noteq> [] \<and> list_all isalpha_char w)"

text \<open>
  \<^verbatim>\<open>s.split()\<close>: \<open>cur\<close> is the word being read; a white-space character closes it,
  and an empty word is never emitted.
\<close>

fun split_acc :: "string \<Rightarrow> string \<Rightarrow> string list" where
  "split_acc cur [] = (if cur = [] then [] else [cur])"
| "split_acc cur (c # cs) =
     (if isspace_char c
      then (if cur = [] then split_acc [] cs else cur # split_acc [] cs)
      else split_acc (cur @ [c]) cs)"

definition str_split :: "string \<Rightarrow> string list" where
  "str_split s = split_acc [] s"

text \<open>The decimal digits of a natural number, as \<^verbatim>\<open>str(n)\<close> and an f-string print it.\<close>

function str_of_nat :: "nat \<Rightarrow> string" where
  "str_of_nat n =
     (if n < 10 then [char_of (48 + n)]
      else str_of_nat (n div 10) @ [char_of (48 + n mod 10)])"
  by pat_completeness auto
termination
  by (relation "measure (\<lambda>n. n)") auto

section \<open>The keyword extractor\<close>

text \<open>The stop words of the \<^verbatim>\<open>except LookupError\<close> branch, in the order of the source.\<close>

definition fallback_stop_words :: "string list" where
  "fallback_stop_words =
     [''the'', ''a'', ''an'', ''and'', ''or'', ''but'', ''in'', ''on'', ''at'', ''to'', ''for'',
      ''of'', ''with'', ''by'', ''is'', ''are'', ''was'', ''were'', ''be'', ''been'', ''being'',
      ''have'', ''has'', ''had'', ''do'', ''does'', ''did'', ''will'', ''would'', ''could'',
      ''should'', ''may'', ''might'', ''must'', ''can'', ''this'', ''that'', ''these'', ''those'',
      ''i'', ''you'', ''he'', ''she'', ''it'', ''we'', ''they'', ''me'', ''him'', ''her'', ''us'',
      ''them'']"

text \<open>
  The two \<^verbatim>\<open>try\<close> blocks: the stop words and the tokens of the lower-cased text, each
  with its fallback when the library raises \<^verbatim>\<open>LookupError\<close>.
\<close>

definition get_stop_words :: "nlp \<Rightarrow> string list" where
  "get_stop_words env =
     (case stopwords_words env of Some ws \<Rightarrow> ws | None \<Rightarrow> fallback_stop_words)"

definition get_word_tokens :: "nlp \<Rightarrow> string \<Rightarrow> string list" where
  "get_word_tokens env s =
     (case word_tokenize env (str_lower s) of
        Some toks \<Rightarrow> toks
      | None \<Rightarrow> str_split (str_lower s))"

definition filtered_words :: "string list \<Rightarrow> string list \<Rightarrow> string list" where
  "filtered_words stop_words word_tokens =
     filter (\<lambda>word. str_isalpha word \<and> word \<notin> set stop_words) word_tokens"

text \<open>
  \<^verbatim>\<open>Counter(filtered_words)\<close> is a dictionary from word to count that keeps its keys in
  the order in which they were first inserted: an association list, where counting a word
  again adds one in place and a new word goes to the end.
\<close>

fun counter_add :: "'a \<Rightarrow> ('a \<times> nat) list \<Rightarrow> ('a \<times> nat) list" where
  "counter_add w [] = [(w, 1)]"
| "counter_add w ((k, n) # kvs) =
     (if k = w then (k, n + 1) # kvs else (k, n) # counter_add w kvs)"

definition counter :: "'a list \<Rightarrow> ('a \<times> nat) list" where
  "counter ws = foldl (\<lambda>c w. counter_add w c) [] ws"

text \<open>
  \<^verbatim>\<open>Counter.most_common(n)\<close> is \<^verbatim>\<open>heapq.nlargest(n, items, key=count)\<close>, which returns
  what \<^verbatim>\<open>sorted(items, key=count, reverse=True)[:n]\<close> returns for \<open>n > 0\<close> and the empty
  list for \<open>n \<le> 0\<close>.  Python's sort is stable also with \<^verbatim>\<open>reverse=True\<close>: it is the
  stable sort by the negated count.
\<close>

definition most_common :: "('a \<times> nat) list \<Rightarrow> int \<Rightarrow> ('a \<times> nat) list" where
  "most_common items n = take (nat n) (sort_key (\<lambda>(word, count). - int count) items)"

definition extract_keywords :: "nlp \<Rightarrow> pyval \<Rightarrow> int \<Rightarrow> error + string list" where
  "extract_keywords env text num_keywords =
     (let stop_words = get_stop_words env
      in case text of
           PStr s \<Rightarrow>
             (let word_tokens = get_word_tokens env s;
                  words = filtered_words stop_words word_tokens;
                  word_counts = counter words;
                  common = most_common word_counts num_keywords
              in Inr (map fst common))
         | _ \<Rightarrow> Inl AttributeError)"

text \<open>The position of the first occurrence of a word in a list (its length when absent).\<close>

fun first_index :: "string list \<Rightarrow> string \<Rightarrow> nat" where
  "first_index [] w = 0"
| "first_index (x # xs) w = (if x = w then 0 else Suc (first_index xs w))"

section \<open>The keyword extractor on Unicode text\<close>












section \<open>The batch orchestrator\<close>

text \<open>
  An input record is a Python dictionary, a table row is a dictionary with its keys in
  insertion order, and a table (a \<^verbatim>\<open>DataFrame\<close>) is the list of its rows; the columns of
  a table are the keys of its rows.
\<close>

type_synonym text_item = "string \<rightharpoonup> pyval"

type_synonym row = "(string \<times> pyval) list"

definition dict_get :: "text_item \<Rightarrow> string \<Rightarrow> pyval \<Rightarrow> pyval" where
  "dict_get d k dflt = (case d k of None \<Rightarrow> dflt | Some v \<Rightarrow> v)"

text \<open>
  The body of the loop of \<^verbatim>\<open>batch_analyze_sentiment\<close> for one record: the row it
  appends, or the exception that \<^verbatim>\<open>text_item['text']\<close>, the classifier or the
  extractor raises.
\<close>

definition analyze_item :: "nlp \<Rightarrow> text_item \<Rightarrow> error + row" where
  "analyze_item env text_item =
     (case text_item ''text'' of
        None \<Rightarrow> Inl KeyError
      | Some text \<Rightarrow>
          (case analyze_sentiment_textblob env text of
             Inl e \<Rightarrow> Inl e
           | Inr (sentiment, confidence, polarity, subjectivity) \<Rightarrow>
               (case extract_keywords env text 5 of
                  Inl e \<Rightarrow> Inl e
                | Inr keywords \<Rightarrow>
                    Inr [(''text'', text),
                         (''sentiment'', PStr sentiment),
                         (''confidence'', PFloat confidence),
                         (''polarity'', PFloat polarity),
                         (''subjectivity'', PFloat subjectivity),
                         (''keywords'', PList keywords),
                         (''source'', dict_get text_item ''source'' (PStr ''N/A'')),
                         (''date'', dict_get text_item ''date'' (PStr ''N/A''))])))"

text \<open>
  The loop itself: \<open>results\<close> is the list built so far.  An exception raised for one
  record leaves the loop, and the function, at once.
\<close>

fun batch_loop :: "nlp \<Rightarrow> text_item list \<Rightarrow> row list \<Rightarrow> error + row list" where
  "batch_loop env [] results = Inr results"
| "batch_loop env (text_item # rest) results =
     (case analyze_item env text_item of
        Inl e \<Rightarrow> Inl e
      | Inr r \<Rightarrow> batch_loop env rest (results @ [r]))"

definition batch_analyze_sentiment :: "nlp \<Rightarrow> text_item list \<Rightarrow> error + row list" where
  "batch_analyze_sentiment env texts = batch_loop env texts []"

definition columns :: "row \<Rightarrow> string list" where
  "columns r = map fst r"

section \<open>The callers of the orchestrator\<close>

text \<open>
  What \<^verbatim>\<open>app.py\<close> does around \<^verbatim>\<open>batch_analyze_sentiment\<close>.  The formatting of
  values is a parameter: \<open>repr_value\<close> is \<^verbatim>\<open>str(v)\<close> on a value that is not a string,
  \<open>format_2f\<close> is the format \<^verbatim>\<open>{polarity:.2f}\<close>, and \<open>today\<close> is
  \<^verbatim>\<open>str(datetime.now().date())\<close>.
\<close>

record rendering =
  repr_value :: "pyval \<Rightarrow> string"
  format_2f :: "real \<Rightarrow> string"
  today :: string

definition py_str :: "rendering \<Rightarrow> pyval \<Rightarrow> string" where
  "py_str r v = (case v of PStr s \<Rightarrow> s | _ \<Rightarrow> repr_value r v)"

text \<open>\<^verbatim>\<open>get_sentiment_explanation(text, sentiment, polarity)\<close>.\<close>

definition get_sentiment_explanation :: "rendering \<Rightarrow> pyval \<Rightarrow> pyval \<Rightarrow> real \<Rightarrow> string" where
  "get_sentiment_explanation r text sentiment polarity =
     (if sentiment = PStr ''Positive''
      then ''The text '' @ [CHR 0x27] @ py_str r text @ [CHR 0x27] @
           '' is classified as Positive due to words and phrases indicating approval or satisfaction. The polarity score is '' @
           format_2f r polarity @ ''.''
      else if sentiment = PStr ''Negative''
      then ''The text '' @ [CHR 0x27] @ py_str r text @ [CHR 0x27] @
           '' is classified as Negative due to words and phrases indicating disapproval or dissatisfaction. The polarity score is '' @
           format_2f r polarity @ ''.''
      else ''The text '' @ [CHR 0x27] @ py_str r text @ [CHR 0x27] @
           '' is classified as Neutral. The polarity score is '' @ format_2f r polarity @
           ''. This could be due to a lack of strong emotional language or a balance of positive and negative terms.'')"

text \<open>
  \<^verbatim>\<open>results['explanation'] = results.apply(lambda row: ..., axis=1)\<close>: the explanation
  of each row, stored under a new last column (or in place when the column exists).  The
  format \<^verbatim>\<open>.2f\<close> accepts numbers only.
\<close>

fun row_set :: "row \<Rightarrow> string \<Rightarrow> pyval \<Rightarrow> row" where
  "row_set [] k v = [(k, v)]"
| "row_set ((k', v') # kvs) k v =
     (if k' = k then (k', v) # kvs else (k', v') # row_set kvs k v)"

definition add_explanation :: "rendering \<Rightarrow> row \<Rightarrow> error + row" where
  "add_explanation r rw =
     (case map_of rw ''text'' of
        None \<Rightarrow> Inl KeyError
      | Some text \<Rightarrow>
          (case map_of rw ''sentiment'' of
             None \<Rightarrow> Inl KeyError
           | Some sentiment \<Rightarrow>
               (case map_of rw ''polarity'' of
                  None \<Rightarrow> Inl KeyError
                | Some (PFloat polarity) \<Rightarrow>
                    Inr (row_set rw ''explanation''
                           (PStr (get_sentiment_explanation r text sentiment polarity)))
                | Some (PInt i) \<Rightarrow>
                    Inr (row_set rw ''explanation''
                           (PStr (get_sentiment_explanation r text sentiment (of_int i))))
                | Some _ \<Rightarrow> Inl TypeError)))"

fun add_explanations :: "rendering \<Rightarrow> row list \<Rightarrow> error + row list" where
  "add_explanations r [] = Inr []"
| "add_explanations r (rw # rest) =
     (case add_explanation r rw of
        Inl e \<Rightarrow> Inl e
      | Inr rw' \<Rightarrow>
          (case add_explanations r rest of
             Inl e \<Rightarrow> Inl e
           | Inr rest' \<Rightarrow> Inr (rw' # rest')))"

text \<open>
  \<^verbatim>\<open>batch_text_analysis\<close>: the records prepared from the lines of the text area, with
  the source entered by the user or, when that is empty, the label
  \<^verbatim>\<open>f'Batch Input {i+1}'\<close>.  The argument \<open>default_date\<close> is the string
  \<^verbatim>\<open>str(default_date)\<close>.
\<close>

definition batch_text_data :: "string \<Rightarrow> string \<Rightarrow> string list \<Rightarrow> text_item list" where
  "batch_text_data default_source default_date texts =
     map (\<lambda>(i, text).
            [''text'' \<mapsto> PStr text,
             ''source'' \<mapsto> PStr (if default_source \<noteq> [] then default_source
                                   else ''Batch Input '' @ str_of_nat (i + 1)),
             ''date'' \<mapsto> PStr default_date])
         (enumerate 0 texts)"

text \<open>
  \<^verbatim>\<open>file_upload_analysis\<close>: each row of the combined table of the uploaded files
  becomes a record whose three fields went through \<^verbatim>\<open>str\<close>
  (\<open>upload_text_item\<close> is the body of that loop, \<open>upload_text_data\<close> the loop).
\<close>

definition upload_text_item :: "rendering \<Rightarrow> text_item \<Rightarrow> error + text_item" where
  "upload_text_item r rw =
     (case rw ''text'' of
        None \<Rightarrow> Inl KeyError
      | Some text \<Rightarrow>
          Inr [''text'' \<mapsto> PStr (py_str r text),
               ''source'' \<mapsto>
                 PStr (py_str r (dict_get rw ''source''
                                   (dict_get rw ''file_source'' (PStr ''File Upload'')))),
               ''date'' \<mapsto> PStr (py_str r (dict_get rw ''date'' (PStr (today r))))])"

fun upload_text_data :: "rendering \<Rightarrow> text_item list \<Rightarrow> error + text_item list" where
  "upload_text_data r [] = Inr []"
| "upload_text_data r (rw # rest) =
     (case upload_text_item r rw of
        Inl e \<Rightarrow> Inl e
      | Inr item \<Rightarrow>
          (case upload_text_data r rest of
             Inl e \<Rightarrow> Inl e
           | Inr items \<Rightarrow> Inr (item # items)))"

section \<open>The summary metrics\<close>

text \<open>
  \<^verbatim>\<open>create_sentiment_metrics_summary(df)\<close> of \<^verbatim>\<open>visualizations.py\<close>.  The column
  names of a table are read off its first row; a table without rows is empty.  The mean
  of a column skips missing values, is \<open>nan\<close> (here \<open>PNone\<close>) when nothing is left, and
  raises \<^verbatim>\<open>TypeError\<close> on a value that is not a number.
\<close>

definition df_columns :: "row list \<Rightarrow> string list" where
  "df_columns df = (case df of [] \<Rightarrow> [] | r # _ \<Rightarrow> columns r)"

definition df_empty :: "row list \<Rightarrow> bool" where
  "df_empty df = (df = [] \<or> df_columns df = [])"

definition sentiment_count :: "row list \<Rightarrow> string \<Rightarrow> int" where
  "sentiment_count df label =
     int (length (filter (\<lambda>r. map_of r ''sentiment'' = Some (PStr label)) df))"

fun numbers :: "pyval option list \<Rightarrow> error + real list" where
  "numbers [] = Inr []"
| "numbers (v # vs) =
     (case numbers vs of
        Inl e \<Rightarrow> Inl e
      | Inr xs \<Rightarrow>
          (case v of
             Some (PFloat x) \<Rightarrow> Inr (x # xs)
           | Some (PInt i) \<Rightarrow> Inr (of_int i # xs)
           | Some PNone \<Rightarrow> Inr xs
           | None \<Rightarrow> Inr xs
           | _ \<Rightarrow> Inl TypeError))"

definition column_mean :: "row list \<Rightarrow> string \<Rightarrow> error + pyval" where
  "column_mean df col =
     (case numbers (map (\<lambda>r. map_of r col) df) of
        Inl e \<Rightarrow> Inl e
      | Inr xs \<Rightarrow> Inr (if xs = [] then PNone else PFloat (sum_list xs / real (length xs))))"

definition percentage :: "int \<Rightarrow> int \<Rightarrow> pyval" where
  "percentage n total_texts =
     (if total_texts > 0 then PFloat (real_of_int n / real_of_int total_texts * 100)
      else PInt 0)"

definition average :: "row list \<Rightarrow> string \<Rightarrow> error + pyval" where
  "average df col = (if col \<in> set (df_columns df) then column_mean df col else Inr (PInt 0))"

definition create_sentiment_metrics_summary :: "row list \<Rightarrow> error + row" where
  "create_sentiment_metrics_summary df =
     (if df_empty df then Inr []
      else if ''sentiment'' \<notin> set (df_columns df) then Inl KeyError
      else
        (let total_texts = int (length df);
             positive_count = sentiment_count df ''Positive'';
             negative_count = sentiment_count df ''Negative'';
             neutral_count = sentiment_count df ''Neutral'';
             positive_pct = percentage positive_count total_texts;
             negative_pct = percentage negative_count total_texts;
             neutral_pct = percentage neutral_count total_texts
         in case average df ''confidence'' of
              Inl e \<Rightarrow> Inl e
            | Inr avg_confidence \<Rightarrow>
                (case average df ''polarity'' of
                   Inl e \<Rightarrow> Inl e
                 | Inr avg_polarity \<Rightarrow>
                     (case average df ''subjectivity'' of
                        Inl e \<Rightarrow> Inl e
                      | Inr avg_subjectivity \<Rightarrow>
                          Inr [(''total_texts'', PInt total_texts),
                               (''positive_count'', PInt positive_count),
                               (''negative_count'', PInt negative_count),
                               (''neutral_count'', PInt neutral_count),
                               (''positive_pct'', positive_pct),
                               (''negative_pct'', negative_pct),
                               (''neutral_pct'', neutral_pct),
                               (''avg_confidence'', avg_confidence),
                               (''avg_polarity'', avg_polarity),
                               (''avg_subjectivity'', avg_subjectivity)]))))"

section \<open>Vocabulary of the properties\<close>

text \<open>
  The words of a list in the order of their first occurrences, the filtered token stream
  of a text (what \<^verbatim>\<open>extract_keywords\<close> counts), and the columns of the rows that
  \<^verbatim>\<open>batch_analyze_sentiment\<close> builds.
\<close>

fun first_occurrences :: "'a list \<Rightarrow> 'a list" where
  "first_occurrences [] = []"
| "first_occurrences (x # xs) = x # filter (\<lambda>y. y \<noteq> x) (first_occurrences xs)"

definition keyword_stream :: "nlp \<Rightarrow> string \<Rightarrow> string list" where
  "keyword_stream env t = filtered_words (get_stop_words env) (get_word_tokens env t)"

definition batch_columns :: "string list" where
  "batch_columns =
     [''text'', ''sentiment'', ''confidence'', ''polarity'', ''subjectivity'', ''keywords'',
      ''source'', ''date'']"

section \<open>Sample inputs\<close>

text \<open>
  An installation without the NLTK data, so that both library calls raise
  \<^verbatim>\<open>LookupError\<close>, with a sentiment model that scores every text as neutral; and a
  rendering of values that prints every value that is not a string as \<open>?\<close>.
\<close>

definition offline_nlp :: nlp where
  "offline_nlp =
     \<lparr>stopwords_words = None, word_tokenize = (\<lambda>s. None), blob_sentiment = (\<lambda>s. (0, 0))\<rparr>"

definition plain_rendering :: rendering where
  "plain_rendering =
     \<lparr>repr_value = (\<lambda>v. ''?''), format_2f = (\<lambda>x. ''0.00''), today = ''2024-01-01''\<rparr>"

text \<open>
  An installation with NLTK's stop words (three of them stand for the list) but without
  its tokenizer data, and one with the tokenizer but without the stop words; the
  tokenizer returns, for the one text of the examples, the tokens that NLTK's
  \<^verbatim>\<open>word_tokenize\<close> returns for it.
\<close>

definition stopwords_only_nlp :: nlp where
  "stopwords_only_nlp =
     \<lparr>stopwords_words = Some [''the'', ''not'', ''from''], word_tokenize = (\<lambda>s. None),
      blob_sentiment = (\<lambda>s. (0, 0))\<rparr>"

definition tokenizer_only_nlp :: nlp where
  "tokenizer_only_nlp =
     \<lparr>stopwords_words = None,
      word_tokenize =
        (\<lambda>s. if s = ''the cat, the mat and the cat.''
              then Some [''the'', ''cat'', '','', ''the'', ''mat'', ''and'', ''the'', ''cat'', ''.'']
              else Some (str_split s)),
      blob_sentiment = (\<lambda>s. (0, 0))\<rparr>"



section \<open>Counting and ranking\<close>

lemma counter_add_keys:
  "map fst (counter_add w c) = (if w \<in> set (map fst c) then map fst c else map fst c @ [w])"
  by (induction c) force+

lemma counter_add_map_of:
  "map_of (counter_add w c) =
     (map_of c)(w \<mapsto> (case map_of c w of None \<Rightarrow> 1 | Some n \<Rightarrow> n + 1))"
  by (induction c) (auto simp: fun_eq_iff)

lemma foldl_counter_keys:
  "map fst (foldl (\<lambda>c w. counter_add w c) c ws) =
     map fst c @ filter (\<lambda>w. w \<notin> set (map fst c)) (first_occurrences ws)"
proof (induction ws arbitrary: c)
  case Nil
  then show ?case by simp
next
  case (Cons w ws)
  show ?case
  proof (cases "w \<in> set (map fst c)")
    case True
    then have "filter (\<lambda>x. x \<notin> set (map fst c)) (filter (\<lambda>y. y \<noteq> w) (first_occurrences ws)) =
        filter (\<lambda>x. x \<notin> set (map fst c)) (first_occurrences ws)"
      by (auto intro: filter_cong)
    with True show ?thesis
      by (simp add: Cons.IH counter_add_keys)
  next
    case False
    have "filter (\<lambda>x. x \<notin> set (map fst c @ [w])) (first_occurrences ws) =
        filter (\<lambda>x. x \<notin> set (map fst c)) (filter (\<lambda>y. y \<noteq> w) (first_occurrences ws))"
      by (auto intro: filter_cong)
    with False show ?thesis
      by (simp add: Cons.IH counter_add_keys)
  qed
qed

lemma foldl_counter_map_of:
  "map_of (foldl (\<lambda>c w. counter_add w c) c ws) x =
     (if x \<in> set ws
      then Some ((case map_of c x of None \<Rightarrow> 0 | Some n \<Rightarrow> n) + count_list ws x)
      else map_of c x)"
  by (induction ws arbitrary: c) (auto simp: counter_add_map_of split: option.splits)

lemma set_first_occurrences: "set (first_occurrences ws) = set ws"
  by (induction ws) auto

lemma distinct_first_occurrences: "distinct (first_occurrences ws)"
  by (induction ws) (auto simp: set_first_occurrences)

lemma counter_keys: "map fst (counter ws) = first_occurrences ws"
  by (simp add: counter_def foldl_counter_keys)

lemma counter_map_of:
  "map_of (counter ws) x = (if x \<in> set ws then Some (count_list ws x) else None)"
  by (simp add: counter_def foldl_counter_map_of)

lemma counter_eq: "counter ws = map (\<lambda>w. (w, count_list ws w)) (first_occurrences ws)"
proof -
  have d: "distinct (map fst (counter ws))"
    by (simp add: counter_keys distinct_first_occurrences)
  have "\<And>w n. (w, n) \<in> set (counter ws) \<Longrightarrow> n = count_list ws w"
  proof -
    fix w n assume "(w, n) \<in> set (counter ws)"
    then have "map_of (counter ws) w = Some n"
      using d by simp
    then show "n = count_list ws w"
      by (simp add: counter_map_of split: if_splits)
  qed
  then have "map (\<lambda>p. (fst p, count_list ws (fst p))) (counter ws) = counter ws"
    by (intro map_idI) auto
  then have "counter ws = map (\<lambda>w. (w, count_list ws w)) (map fst (counter ws))"
    by (simp add: comp_def)
  then show ?thesis
    by (simp add: counter_keys)
qed

lemma sorted_wrt_first_occurrences:
  "sorted_wrt (\<lambda>a b. first_index ws a < first_index ws b) (first_occurrences ws)"
proof (induction ws)
  case Nil
  then show ?case by simp
next
  case (Cons x xs)
  have "sorted_wrt (\<lambda>a b. first_index xs a < first_index xs b) (filter (\<lambda>y. y \<noteq> x) (first_occurrences xs))"
    using Cons.IH by (rule sorted_wrt_filter)
  then have "sorted_wrt (\<lambda>a b. first_index (x # xs) a < first_index (x # xs) b)
      (filter (\<lambda>y. y \<noteq> x) (first_occurrences xs))"
    by (rule sorted_wrt_mono_rel[rotated]) auto
  then show ?case by auto
qed


lemma insort_key_map:
  "insort_key f (h x) (map h ys) = map h (insort_key (\<lambda>y. f (h y)) x ys)"
  by (induction ys) auto

lemma sort_key_map: "sort_key f (map h xs) = map h (sort_key (\<lambda>y. f (h y)) xs)"
  by (induction xs) (simp_all add: insort_key_map)


lemma most_common_counter:
  "map fst (most_common (counter ws) n) =
     take (nat n) (sort_key (\<lambda>w. - int (count_list ws w)) (first_occurrences ws))"
  by (simp add: most_common_def counter_eq sort_key_map take_map comp_def)

lemma extract_keywords_eq:
  "extract_keywords env (PStr t) k =
     Inr (take (nat k)
            (sort_key (\<lambda>w. - int (count_list (keyword_stream env t) w))
               (first_occurrences (keyword_stream env t))))"
  using most_common_counter[of "keyword_stream env t" k]
  by (simp add: extract_keywords_def keyword_stream_def Let_def)

lemma stable_sorted_wrt:
  assumes "sorted (map f ys)"
    and "\<And>k. sorted_wrt P (filter (\<lambda>y. f y = k) ys)"
  shows "sorted_wrt (\<lambda>a b. f a < f b \<or> (f a = f b \<and> P a b)) ys"
  using assms
proof (induction ys)
  case Nil
  then show ?case by simp
next
  case (Cons y ys)
  have tail: "sorted_wrt (\<lambda>a b. f a < f b \<or> (f a = f b \<and> P a b)) ys"
  proof (rule Cons.IH)
    show "sorted (map f ys)" using Cons.prems(1) by simp
    fix k
    have "sorted_wrt P (filter (\<lambda>y. f y = k) (y # ys))" by (rule Cons.prems(2))
    then show "sorted_wrt P (filter (\<lambda>y. f y = k) ys)"
      by (simp split: if_splits)
  qed
  have head: "f y < f z \<or> (f y = f z \<and> P y z)" if z: "z \<in> set ys" for z
  proof (cases "f y = f z")
    case True
    have "sorted_wrt P (filter (\<lambda>x. f x = f y) (y # ys))" by (rule Cons.prems(2))
    then have "\<forall>x\<in>set (filter (\<lambda>x. f x = f y) ys). P y x" by simp
    with z True show ?thesis by simp
  next
    case False
    moreover have "f y \<le> f z" using Cons.prems(1) z by simp
    ultimately show ?thesis by simp
  qed
  from tail head show ?case by simp
qed

lemma sorted_wrt_ranked:
  "sorted_wrt
     (\<lambda>a b. count_list ws b < count_list ws a \<or>
            (count_list ws a = count_list ws b \<and> first_index ws a < first_index ws b))
     (sort_key (\<lambda>w. - int (count_list ws w)) (first_occurrences ws))"
proof -
  let ?f = "\<lambda>w. - int (count_list ws w)"
  let ?P = "\<lambda>a b. first_index ws a < first_index ws b"
  have "sorted_wrt (\<lambda>a b. ?f a < ?f b \<or> (?f a = ?f b \<and> ?P a b))
      (sort_key ?f (first_occurrences ws))"
  proof (rule stable_sorted_wrt)
    show "sorted (map ?f (sort_key ?f (first_occurrences ws)))" by (rule sorted_sort_key)
    fix k
    have "filter (\<lambda>y. ?f y = k) (sort_key ?f (first_occurrences ws)) =
        filter (\<lambda>y. ?f y = k) (first_occurrences ws)"
      by (rule sort_key_stable)
    then show "sorted_wrt ?P (filter (\<lambda>y. ?f y = k) (sort_key ?f (first_occurrences ws)))"
      by (simp add: sorted_wrt_filter sorted_wrt_first_occurrences)
  qed
  then show ?thesis
    by (rule sorted_wrt_mono_rel[rotated]) auto
qed








section \<open>The loop of the orchestrator\<close>

lemma analyze_string:
  "analyze_sentiment_textblob env (PStr s) =
     Inr ((if fst (blob_sentiment env s) > 0 then ''Positive''
           else if fst (blob_sentiment env s) < 0 then ''Negative'' else ''Neutral''),
          \<bar>fst (blob_sentiment env s)\<bar>,
          fst (blob_sentiment env s), snd (blob_sentiment env s))"
  by (simp add: analyze_sentiment_textblob_def Let_def)

lemma analyze_item_string:
  assumes "item ''text'' = Some (PStr s)"
  shows "\<exists>r. analyze_item env item = Inr r"
  using assms
  by (simp add: analyze_item_def analyze_string extract_keywords_eq case_prod_unfold)

lemma analyze_item_not_string:
  assumes "item ''text'' = Some v" and "\<forall>s. v \<noteq> PStr s"
  shows "analyze_item env item = Inl TypeError"
  using assms
  by (cases v) (simp_all add: analyze_item_def analyze_sentiment_textblob_def)

lemma analyze_item_row:
  assumes "analyze_item env item = Inr r"
  shows "columns r = batch_columns \<and>
     (\<exists>s. item ''text'' = Some (PStr s)) \<and>
     map_of r ''text'' = item ''text'' \<and>
     map_of r ''source'' = Some (dict_get item ''source'' (PStr ''N/A'')) \<and>
     map_of r ''date'' = Some (dict_get item ''date'' (PStr ''N/A'')) \<and>
     (\<exists>s x. map_of r ''sentiment'' = Some (PStr s) \<and> map_of r ''polarity'' = Some (PFloat x))"
proof -
  from assms obtain v where v: "item ''text'' = Some v"
    by (auto simp: analyze_item_def split: option.splits)
  have "\<exists>s. v = PStr s"
  proof (rule ccontr)
    assume "\<not> (\<exists>s. v = PStr s)"
    then have "analyze_item env item = Inl TypeError"
      using v by (intro analyze_item_not_string) auto
    with assms show False by simp
  qed
  then obtain s where s: "v = PStr s" by blast
  show ?thesis
    using assms v s
    by (auto simp: analyze_item_def analyze_string extract_keywords_eq case_prod_unfold
        columns_def batch_columns_def)
qed

lemma batch_loop_Inr:
  "batch_loop env texts acc = Inr rows \<Longrightarrow>
     \<exists>new. rows = acc @ new \<and> list_all2 (\<lambda>item r. analyze_item env item = Inr r) texts new"
proof (induction texts arbitrary: acc)
  case Nil
  then show ?case by simp
next
  case (Cons item texts)
  from Cons.prems obtain r where r: "analyze_item env item = Inr r"
    and rest: "batch_loop env texts (acc @ [r]) = Inr rows"
    by (auto split: sum.splits)
  from Cons.IH[OF rest] obtain new where "rows = (acc @ [r]) @ new"
    and "list_all2 (\<lambda>item r. analyze_item env item = Inr r) texts new"
    by blast
  with r have "rows = acc @ (r # new) \<and>
      list_all2 (\<lambda>item r. analyze_item env item = Inr r) (item # texts) (r # new)"
    by simp
  then show ?case by blast
qed

lemma batch_loop_total:
  "\<forall>item \<in> set texts. \<exists>r. analyze_item env item = Inr r \<Longrightarrow>
     \<exists>rows. batch_loop env texts acc = Inr rows"
proof (induction texts arbitrary: acc)
  case Nil
  then show ?case by simp
next
  case (Cons item texts)
  then obtain r where "analyze_item env item = Inr r" by auto
  moreover have "\<exists>rows. batch_loop env texts (acc @ [r]) = Inr rows"
    using Cons.prems by (intro Cons.IH) simp
  ultimately show ?case by simp
qed

lemma batch_loop_abort:
  "item \<in> set texts \<Longrightarrow> analyze_item env item = Inl e \<Longrightarrow>
     \<exists>e'. batch_loop env texts acc = Inl e'"
proof (induction texts arbitrary: acc)
  case Nil
  then show ?case by simp
next
  case (Cons x texts)
  show ?case
  proof (cases "analyze_item env x")
    case (Inl e')
    then show ?thesis by simp
  next
    case (Inr r)
    with Cons.prems have "item \<in> set texts" by auto
    from Cons.IH[OF this Cons.prems(2)] Inr show ?thesis by simp
  qed
qed

lemma batch_rows:
  assumes "batch_analyze_sentiment env texts = Inr rows"
  shows "list_all2 (\<lambda>item r. analyze_item env item = Inr r) texts rows"
  using batch_loop_Inr[of env texts "[]" rows] assms
  by (simp add: batch_analyze_sentiment_def)

lemma batch_row_of_item:
  assumes "batch_analyze_sentiment env texts = Inr rows" and "rw \<in> set rows"
  shows "\<exists>item \<in> set texts. analyze_item env item = Inr rw"
proof -
  note all = batch_rows[OF assms(1)]
  from assms(2) obtain i where i: "i < length rows" "rw = rows ! i"
    by (auto simp: in_set_conv_nth)
  with all have "i < length texts"
    by (simp add: list_all2_lengthD)
  moreover from this have "analyze_item env (texts ! i) = Inr (rows ! i)"
    by (rule list_all2_nthD[OF all])
  ultimately show ?thesis using i by auto
qed

lemma row_set_new: "k \<notin> set (map fst rw) \<Longrightarrow> row_set rw k v = rw @ [(k, v)]"
  by (induction rw) auto

lemma add_explanation_row:
  assumes "columns rw = batch_columns" and "map_of rw ''polarity'' = Some (PFloat x)"
  shows "\<exists>e. add_explanation r rw = Inr (rw @ [(''explanation'', PStr e)])"
proof -
  have keys: "map fst rw = batch_columns"
    using assms(1) by (simp add: columns_def)
  have "set (map fst rw) = set batch_columns"
    by (simp only: keys)
  then have "''text'' \<in> fst ` set rw" and "''sentiment'' \<in> fst ` set rw"
    by (simp_all add: batch_columns_def)
  then obtain t s where "map_of rw ''text'' = Some t" and "map_of rw ''sentiment'' = Some s"
    by (metis map_of_eq_None_iff not_Some_eq)
  moreover have "''explanation'' \<notin> set (map fst rw)"
    by (simp only: keys) (simp add: batch_columns_def)
  ultimately show ?thesis
    using assms(2) by (simp add: add_explanation_def row_set_new)
qed

lemma add_explanations_rows:
  assumes "\<forall>rw \<in> set rows. columns rw = batch_columns \<and> (\<exists>x. map_of rw ''polarity'' = Some (PFloat x))"
  shows "\<exists>rows'. add_explanations r rows = Inr rows' \<and> length rows' = length rows \<and>
     (\<forall>rw' \<in> set rows'. columns rw' = batch_columns @ [''explanation''])"
  using assms
proof (induction rows)
  case Nil
  then show ?case by simp
next
  case (Cons rw rows)
  then obtain e where e: "add_explanation r rw = Inr (rw @ [(''explanation'', PStr e)])"
    using add_explanation_row[of rw _ r] by auto
  from Cons obtain rows' where rows': "add_explanations r rows = Inr rows'"
    "length rows' = length rows" "\<forall>rw' \<in> set rows'. columns rw' = batch_columns @ [''explanation'']"
    by auto
  have "columns (rw @ [(''explanation'', PStr e)]) = batch_columns @ [''explanation'']"
    using Cons.prems by (simp add: columns_def)
  with e rows' show ?case by simp
qed

lemma upload_text_item_text:
  assumes "rw ''text'' = Some v"
  shows "\<exists>item. upload_text_item r rw = Inr item \<and> item ''text'' = Some (PStr (py_str r v))"
  using assms by (simp add: upload_text_item_def)

lemma upload_text_data_items:
  assumes "\<forall>rw \<in> set df. rw ''text'' \<noteq> None"
  shows "\<exists>items. upload_text_data r df = Inr items \<and>
     list_all2 (\<lambda>rw item. item ''text'' = map_option (\<lambda>v. PStr (py_str r v)) (rw ''text'')) df items"
  using assms
proof (induction df)
  case Nil
  then show ?case by simp
next
  case (Cons rw df)
  then obtain v where v: "rw ''text'' = Some v" by auto
  from upload_text_item_text[of rw v r] v obtain item where
    item: "upload_text_item r rw = Inr item" "item ''text'' = Some (PStr (py_str r v))"
    by blast
  from Cons obtain items where items: "upload_text_data r df = Inr items"
    "list_all2 (\<lambda>rw item. item ''text'' = map_option (\<lambda>v. PStr (py_str r v)) (rw ''text'')) df items"
    by auto
  from v item items show ?case by simp
qed

lemma batch_text_data_source:
  assumes "i < length ts"
  shows "(batch_text_data [] d ts ! i) ''source'' =
     Some (PStr (''Batch Input '' @ str_of_nat (i + 1)))"
  using assms by (simp add: batch_text_data_def nth_enumerate_eq del: str_of_nat.simps)

section \<open>Properties of the classifier\<close>

text \<open>
  Claim C1.  For every input text the classifier returns a result; its label is
  \<open>Positive\<close> exactly when the polarity computed by the model is above zero,
  \<open>Negative\<close> exactly when it is below zero and \<open>Neutral\<close> exactly when it is zero; the
  confidence is the absolute value of the polarity, and it lies between 0 and 1 whenever
  the polarity lies between -1 and 1.
\<close>

theorem analyze_sentiment_textblob_sign:
  "\<exists>sentiment confidence polarity subjectivity.
     analyze_sentiment_textblob env (PStr t) =
       Inr (sentiment, confidence, polarity, subjectivity) \<and>
     polarity = fst (blob_sentiment env t) \<and>
     (sentiment = ''Positive'' \<longleftrightarrow> polarity > 0) \<and>
     (sentiment = ''Negative'' \<longleftrightarrow> polarity < 0) \<and>
     (sentiment = ''Neutral'' \<longleftrightarrow> polarity = 0) \<and>
     confidence = \<bar>polarity\<bar> \<and>
     (- 1 \<le> polarity \<and> polarity \<le> 1 \<longrightarrow> 0 \<le> confidence \<and> confidence \<le> 1)"
proof -
  let ?p = "fst (blob_sentiment env t)"
  let ?l = "if ?p > 0 then ''Positive'' else if ?p < 0 then ''Negative'' else ''Neutral''"
  have run: "analyze_sentiment_textblob env (PStr t) =
      Inr (?l, \<bar>?p\<bar>, ?p, snd (blob_sentiment env t))"
    by (simp add: analyze_sentiment_textblob_def Let_def)
  have "(?l = ''Positive'' \<longleftrightarrow> ?p > 0) \<and> (?l = ''Negative'' \<longleftrightarrow> ?p < 0) \<and>
      (?l = ''Neutral'' \<longleftrightarrow> ?p = 0)"
    by simp
  moreover have "- 1 \<le> ?p \<and> ?p \<le> 1 \<longrightarrow> 0 \<le> \<bar>?p\<bar> \<and> \<bar>?p\<bar> \<le> 1"
    by (simp add: abs_le_iff)
  ultimately show ?thesis
    using run by blast
qed

theorem analyze_sentiment_textblob_sign_witness:
  "(- 1 \<le> (- 1 / 2 :: real) \<and> (- 1 / 2 :: real) \<le> 1) \<and>
   analyze_sentiment_textblob
     \<lparr>stopwords_words = None, word_tokenize = (\<lambda>s. None),
      blob_sentiment = (\<lambda>s. (- 1 / 2, 3 / 5))\<rparr> (PStr ''bad'') =
   Inr (''Negative'', 1 / 2, - 1 / 2, 3 / 5)"
  using analyze_sentiment_textblob_sign
    [of "\<lparr>stopwords_words = None, word_tokenize = (\<lambda>s. None),
          blob_sentiment = (\<lambda>s. (- 1 / 2, 3 / 5))\<rparr>" "''bad''"]
  by (simp add: analyze_sentiment_textblob_def)

section \<open>Properties of the keyword extractor\<close>



text \<open>
  Claim C4.  The keywords come in the order of their frequencies in the filtered token
  stream, highest first: a keyword never has a lower frequency than a later one, and of
  two keywords with the same frequency the one whose first occurrence in the stream is
  earlier comes first.
\<close>

theorem extract_keywords_order:
  assumes "extract_keywords env (PStr t) k = Inr ks" and "i < j" and "j < length ks"
  shows "count_list (keyword_stream env t) (ks ! j) \<le> count_list (keyword_stream env t) (ks ! i) \<and>
     (count_list (keyword_stream env t) (ks ! i) = count_list (keyword_stream env t) (ks ! j) \<longrightarrow>
      first_index (keyword_stream env t) (ks ! i) < first_index (keyword_stream env t) (ks ! j))"
proof -
  let ?fw = "keyword_stream env t"
  let ?R = "\<lambda>a b. count_list ?fw b < count_list ?fw a \<or>
            (count_list ?fw a = count_list ?fw b \<and> first_index ?fw a < first_index ?fw b)"
  have ks: "ks = take (nat k) (sort_key (\<lambda>w. - int (count_list ?fw w)) (first_occurrences ?fw))"
    using assms(1) by (simp add: extract_keywords_eq)
  have "sorted_wrt ?R ks"
    unfolding ks by (rule sorted_wrt_take) (rule sorted_wrt_ranked)
  then have "?R (ks ! i) (ks ! j)"
    using assms(2,3) by (rule sorted_wrt_nth_less)
  then show ?thesis by auto
qed

theorem extract_keywords_order_witness:
  "extract_keywords offline_nlp (PStr ''The cat sat on the mat and the cat slept'') 3 =
     Inr [''cat'', ''sat'', ''mat''] \<and>
   keyword_stream offline_nlp ''The cat sat on the mat and the cat slept'' =
     [''cat'', ''sat'', ''mat'', ''cat'', ''slept''] \<and>
   count_list [''cat'', ''sat'', ''mat'', ''cat'', ''slept''] ''sat'' \<le>
     count_list [''cat'', ''sat'', ''mat'', ''cat'', ''slept''] ''cat'' \<and>
   first_index [''cat'', ''sat'', ''mat'', ''cat'', ''slept''] ''sat'' <
     first_index [''cat'', ''sat'', ''mat'', ''cat'', ''slept''] ''mat''"
proof -
  have run: "extract_keywords offline_nlp (PStr ''The cat sat on the mat and the cat slept'') 3 =
      Inr [''cat'', ''sat'', ''mat'']"
    by code_simp
  have fw: "keyword_stream offline_nlp ''The cat sat on the mat and the cat slept'' =
      [''cat'', ''sat'', ''mat'', ''cat'', ''slept'']"
    by code_simp
  have a: "count_list [''cat'', ''sat'', ''mat'', ''cat'', ''slept''] ''sat'' \<le>
     count_list [''cat'', ''sat'', ''mat'', ''cat'', ''slept''] ''cat''"
    using extract_keywords_order[OF run, of 0 1] by (simp add: fw)
  have b: "first_index [''cat'', ''sat'', ''mat'', ''cat'', ''slept''] ''sat'' <
     first_index [''cat'', ''sat'', ''mat'', ''cat'', ''slept''] ''mat''"
    using extract_keywords_order[OF run, of 1 2] by (simp add: fw)
  from run fw a b show ?thesis by simp
qed

text \<open>
  Claim C8.  When the library's stop words are unavailable, \<^verbatim>\<open>extract_keywords\<close> uses
  the built-in list; when the library's tokenizer is unavailable, it splits the
  lower-cased text at white space.  Its result is the ranking computed from the stop
  words and the tokens so obtained, whichever of the two resources is missing (the stop
  words, the tokenizer, or both), and in every case it returns a list of keywords, not an
  error.
\<close>

theorem extract_keywords_fallback:
  "(stopwords_words env = None \<longrightarrow> get_stop_words env = fallback_stop_words) \<and>
   (word_tokenize env (str_lower t) = None \<longrightarrow>
      get_word_tokens env t = str_split (str_lower t)) \<and>
   (stopwords_words env = None \<and> word_tokenize env (str_lower t) = None \<longrightarrow>
      extract_keywords env (PStr t) k =
        Inr (map fst (most_common
               (counter (filtered_words fallback_stop_words (str_split (str_lower t)))) k))) \<and>
   (stopwords_words env = None \<and> word_tokenize env (str_lower t) = Some toks \<longrightarrow>
      extract_keywords env (PStr t) k =
        Inr (map fst (most_common (counter (filtered_words fallback_stop_words toks)) k))) \<and>
   (stopwords_words env = Some ws \<and> word_tokenize env (str_lower t) = None \<longrightarrow>
      extract_keywords env (PStr t) k =
        Inr (map fst (most_common
               (counter (filtered_words ws (str_split (str_lower t)))) k))) \<and>
   (stopwords_words env = Some ws \<and> word_tokenize env (str_lower t) = Some toks \<longrightarrow>
      extract_keywords env (PStr t) k =
        Inr (map fst (most_common (counter (filtered_words ws toks)) k))) \<and>
   (\<exists>ks. extract_keywords env (PStr t) k = Inr ks)"
  by (simp add: get_stop_words_def get_word_tokens_def extract_keywords_def Let_def)

theorem extract_keywords_fallback_witness:
  "stopwords_words offline_nlp = None \<and>
   word_tokenize offline_nlp (str_lower ''The cat sat on the mat and the cat slept'') = None \<and>
   get_stop_words offline_nlp = fallback_stop_words \<and>
   get_word_tokens offline_nlp ''The cat sat on the mat and the cat slept'' =
     str_split (str_lower ''The cat sat on the mat and the cat slept'') \<and>
   extract_keywords offline_nlp (PStr ''The cat sat on the mat and the cat slept'') 2 =
     Inr [''cat'', ''sat''] \<and>
   stopwords_words tokenizer_only_nlp = None \<and>
   word_tokenize tokenizer_only_nlp (str_lower ''The cat, the mat and the cat.'') =
     Some [''the'', ''cat'', '','', ''the'', ''mat'', ''and'', ''the'', ''cat'', ''.''] \<and>
   extract_keywords tokenizer_only_nlp (PStr ''The cat, the mat and the cat.'') 3 =
     Inr [''cat'', ''mat''] \<and>
   stopwords_words stopwords_only_nlp = Some [''the'', ''not'', ''from''] \<and>
   word_tokenize stopwords_only_nlp (str_lower ''Cat not from the mat'') = None \<and>
   extract_keywords stopwords_only_nlp (PStr ''Cat not from the mat'') 3 =
     Inr [''cat'', ''mat'']"
proof -
  have sw: "stopwords_words offline_nlp = None"
    by (simp add: offline_nlp_def)
  have tk: "word_tokenize offline_nlp (str_lower ''The cat sat on the mat and the cat slept'') = None"
    by (simp add: offline_nlp_def)
  have ev: "map fst (most_common
               (counter (filtered_words fallback_stop_words
                  (str_split (str_lower ''The cat sat on the mat and the cat slept'')))) 2) =
            [''cat'', ''sat'']"
    by code_simp
  note both = extract_keywords_fallback
      [where env = offline_nlp and t = "''The cat sat on the mat and the cat slept''" and k = 2]
  have c1: "get_stop_words offline_nlp = fallback_stop_words \<and>
      get_word_tokens offline_nlp ''The cat sat on the mat and the cat slept'' =
        str_split (str_lower ''The cat sat on the mat and the cat slept'') \<and>
      extract_keywords offline_nlp (PStr ''The cat sat on the mat and the cat slept'') 2 =
        Inr [''cat'', ''sat'']"
    using both sw tk ev by simp
  have sw2: "stopwords_words tokenizer_only_nlp = None"
    by (simp add: tokenizer_only_nlp_def)
  have tk2: "word_tokenize tokenizer_only_nlp (str_lower ''The cat, the mat and the cat.'') =
     Some [''the'', ''cat'', '','', ''the'', ''mat'', ''and'', ''the'', ''cat'', ''.'']"
    by code_simp
  have ev2: "map fst (most_common (counter (filtered_words fallback_stop_words
        [''the'', ''cat'', '','', ''the'', ''mat'', ''and'', ''the'', ''cat'', ''.''])) 3) =
      [''cat'', ''mat'']"
    by code_simp
  have c2: "extract_keywords tokenizer_only_nlp (PStr ''The cat, the mat and the cat.'') 3 =
     Inr [''cat'', ''mat'']"
    using extract_keywords_fallback
      [where env = tokenizer_only_nlp and t = "''The cat, the mat and the cat.''" and k = 3
         and toks = "[''the'', ''cat'', '','', ''the'', ''mat'', ''and'', ''the'', ''cat'', ''.'']"]
      sw2 tk2 ev2
    by simp
  have sw3: "stopwords_words stopwords_only_nlp = Some [''the'', ''not'', ''from'']"
    by (simp add: stopwords_only_nlp_def)
  have tk3: "word_tokenize stopwords_only_nlp (str_lower ''Cat not from the mat'') = None"
    by (simp add: stopwords_only_nlp_def)
  have ev3: "map fst (most_common (counter (filtered_words [''the'', ''not'', ''from'']
        (str_split (str_lower ''Cat not from the mat'')))) 3) = [''cat'', ''mat'']"
    by code_simp
  have c3: "extract_keywords stopwords_only_nlp (PStr ''Cat not from the mat'') 3 =
     Inr [''cat'', ''mat'']"
    using extract_keywords_fallback
      [where env = stopwords_only_nlp and t = "''Cat not from the mat''" and k = 3
         and ws = "[''the'', ''not'', ''from'']"]
      sw3 tk3 ev3
    by simp
  from sw tk c1 sw2 tk2 c2 sw3 tk3 c3 show ?thesis
    by (intro conjI) simp_all
qed




section \<open>Properties of the orchestrator\<close>

text \<open>
  Claim C3.  Whenever \<^verbatim>\<open>batch_analyze_sentiment\<close> returns a table, the table has one
  row for each input record, in the order of the input: row \<open>i\<close> carries the text of
  record \<open>i\<close>, with nothing reordered, skipped or merged.  It returns a table for every
  list of records whose texts are strings.
\<close>

theorem batch_preserves_order:
  "(batch_analyze_sentiment env texts = Inr rows \<longrightarrow>
      length rows = length texts \<and>
      (\<forall>i < length texts. map_of (rows ! i) ''text'' = (texts ! i) ''text'')) \<and>
   ((\<forall>item \<in> set texts. \<exists>s. item ''text'' = Some (PStr s)) \<longrightarrow>
      (\<exists>rows'. batch_analyze_sentiment env texts = Inr rows'))"
proof (intro conjI impI)
  assume run: "batch_analyze_sentiment env texts = Inr rows"
  note all = batch_rows[OF run]
  show "length rows = length texts"
    using all by (simp add: list_all2_lengthD)
  show "\<forall>i < length texts. map_of (rows ! i) ''text'' = (texts ! i) ''text''"
  proof (intro allI impI)
    fix i assume "i < length texts"
    then have "analyze_item env (texts ! i) = Inr (rows ! i)"
      by (rule list_all2_nthD[OF all])
    then show "map_of (rows ! i) ''text'' = (texts ! i) ''text''"
      by (simp add: analyze_item_row)
  qed
next
  assume "\<forall>item \<in> set texts. \<exists>s. item ''text'' = Some (PStr s)"
  then have "\<forall>item \<in> set texts. \<exists>r. analyze_item env item = Inr r"
    by (auto intro: analyze_item_string)
  then show "\<exists>rows'. batch_analyze_sentiment env texts = Inr rows'"
    unfolding batch_analyze_sentiment_def by (rule batch_loop_total)
qed

theorem batch_preserves_order_witness:
  "\<exists>rows.
     batch_analyze_sentiment offline_nlp
       [[''text'' \<mapsto> PStr ''b''], [''text'' \<mapsto> PStr ''a''], [''text'' \<mapsto> PStr ''b'']] = Inr rows \<and>
     length rows = 3 \<and>
     map_of (rows ! 0) ''text'' = Some (PStr ''b'') \<and>
     map_of (rows ! 1) ''text'' = Some (PStr ''a'') \<and>
     map_of (rows ! 2) ''text'' = Some (PStr ''b'')"
proof -
  let ?texts = "[[''text'' \<mapsto> PStr ''b''], [''text'' \<mapsto> PStr ''a''], [''text'' \<mapsto> PStr ''b'']]"
  have strings: "\<forall>item \<in> set ?texts. \<exists>s. item ''text'' = Some (PStr s)"
    by simp
  have "(\<forall>item \<in> set ?texts. \<exists>s. item ''text'' = Some (PStr s)) \<longrightarrow>
      (\<exists>rows'. batch_analyze_sentiment offline_nlp ?texts = Inr rows')"
    by (rule conjunct2[OF batch_preserves_order])
  then have "\<exists>rows'. batch_analyze_sentiment offline_nlp ?texts = Inr rows'"
    using strings by (rule mp)
  then obtain rows where run: "batch_analyze_sentiment offline_nlp ?texts = Inr rows" ..
  have "batch_analyze_sentiment offline_nlp ?texts = Inr rows \<longrightarrow>
      length rows = length ?texts \<and>
      (\<forall>i < length ?texts. map_of (rows ! i) ''text'' = (?texts ! i) ''text'')"
    by (rule conjunct1[OF batch_preserves_order])
  then have lt: "length rows = length ?texts \<and>
      (\<forall>i < length ?texts. map_of (rows ! i) ''text'' = (?texts ! i) ''text'')"
    using run by (rule mp)
  then have len: "length rows = 3" by simp
  from lt have nth_text: "\<And>i. i < 3 \<Longrightarrow> map_of (rows ! i) ''text'' = (?texts ! i) ''text''"
    by simp
  have t0: "map_of (rows ! 0) ''text'' = Some (PStr ''b'')"
    using nth_text[of 0] by simp
  have t1: "map_of (rows ! 1) ''text'' = Some (PStr ''a'')"
    using nth_text[of 1] by simp
  have t2: "map_of (rows ! 2) ''text'' = Some (PStr ''b'')"
    using nth_text[of 2] by simp
  from run len t0 t1 t2 show ?thesis
    by (intro exI[of _ rows] conjI)
qed

text \<open>
  Claim C5, as amended.  \<^verbatim>\<open>batch_analyze_sentiment\<close> does not coerce the text: one
  record whose text is not a string makes it raise, and the whole batch ends with the
  error and no table.  The coercion \<^verbatim>\<open>str(row['text'])\<close> is applied by the caller
  \<^verbatim>\<open>file_upload_analysis\<close> when it prepares the records: for a table whose every row
  has a text, each prepared record carries the string form of that text, and the
  orchestrator then returns one output row for each input row.
\<close>

theorem batch_aborts_unless_caller_coerces:
  "(item \<in> set texts \<and> item ''text'' = Some v \<and> (\<forall>s. v \<noteq> PStr s) \<longrightarrow>
      (\<exists>e. batch_analyze_sentiment env texts = Inl e)) \<and>
   ((\<forall>rw \<in> set df. rw ''text'' \<noteq> None) \<longrightarrow>
      (\<exists>items rows.
         upload_text_data r df = Inr items \<and> length items = length df \<and>
         (\<forall>i < length df.
            (items ! i) ''text'' = map_option (\<lambda>v. PStr (py_str r v)) ((df ! i) ''text'')) \<and>
         batch_analyze_sentiment env items = Inr rows \<and> length rows = length df))"
proof (intro conjI impI)
  assume a: "item \<in> set texts \<and> item ''text'' = Some v \<and> (\<forall>s. v \<noteq> PStr s)"
  then have "analyze_item env item = Inl TypeError"
    by (intro analyze_item_not_string) auto
  with a show "\<exists>e. batch_analyze_sentiment env texts = Inl e"
    unfolding batch_analyze_sentiment_def by (intro batch_loop_abort) auto
next
  assume "\<forall>rw \<in> set df. rw ''text'' \<noteq> None"
  from upload_text_data_items[OF this, of r] obtain items where
    up: "upload_text_data r df = Inr items"
    and all: "list_all2 (\<lambda>rw item. item ''text'' = map_option (\<lambda>v. PStr (py_str r v)) (rw ''text'')) df items"
    by blast
  have len: "length items = length df"
    using all by (simp add: list_all2_lengthD)
  have nth: "\<forall>i < length df.
      (items ! i) ''text'' = map_option (\<lambda>v. PStr (py_str r v)) ((df ! i) ''text'')"
    using all by (simp add: list_all2_conv_all_nth)
  have "\<forall>item \<in> set items. \<exists>rw. analyze_item env item = Inr rw"
  proof
    fix item assume "item \<in> set items"
    then obtain i where i: "i < length items" "item = items ! i"
      by (auto simp: in_set_conv_nth)
    with len nth have t: "item ''text'' = map_option (\<lambda>v. PStr (py_str r v)) ((df ! i) ''text'')"
      by simp
    from i len have "df ! i \<in> set df" by simp
    with \<open>\<forall>rw \<in> set df. rw ''text'' \<noteq> None\<close> obtain v where "(df ! i) ''text'' = Some v"
      by auto
    with t have "item ''text'' = Some (PStr (py_str r v))" by simp
    then show "\<exists>rw. analyze_item env item = Inr rw"
      by (rule analyze_item_string)
  qed
  then obtain rows where run: "batch_analyze_sentiment env items = Inr rows"
    unfolding batch_analyze_sentiment_def using batch_loop_total by blast
  have "length rows = length df"
    using list_all2_lengthD[OF batch_rows[OF run]] len by simp
  then have "upload_text_data r df = Inr items \<and> length items = length df \<and>
         (\<forall>i < length df.
            (items ! i) ''text'' = map_option (\<lambda>v. PStr (py_str r v)) ((df ! i) ''text'')) \<and>
         batch_analyze_sentiment env items = Inr rows \<and> length rows = length df"
    using up len nth run by simp
  then show "\<exists>items rows.
         upload_text_data r df = Inr items \<and> length items = length df \<and>
         (\<forall>i < length df.
            (items ! i) ''text'' = map_option (\<lambda>v. PStr (py_str r v)) ((df ! i) ''text'')) \<and>
         batch_analyze_sentiment env items = Inr rows \<and> length rows = length df"
    by (intro exI)
qed

theorem batch_aborts_counterexample:
  "batch_analyze_sentiment offline_nlp [[''text'' \<mapsto> PStr ''table''], [''text'' \<mapsto> PInt 5]] =
     Inl TypeError"
  by code_simp

theorem batch_aborts_unless_caller_coerces_witness:
  "(\<exists>e. batch_analyze_sentiment offline_nlp
           [[''text'' \<mapsto> PStr ''table''], [''text'' \<mapsto> PInt 5]] = Inl e) \<and>
   (\<exists>items rows.
      upload_text_data plain_rendering [[''text'' \<mapsto> PStr ''table''], [''text'' \<mapsto> PInt 5]] =
        Inr items \<and>
      (items ! 0) ''text'' = Some (PStr ''table'') \<and>
      (items ! 1) ''text'' = Some (PStr ''?'') \<and>
      batch_analyze_sentiment offline_nlp items = Inr rows \<and> length rows = 2)"
proof -
  let ?df = "[[''text'' \<mapsto> PStr ''table''], [''text'' \<mapsto> PInt 5]]"
  have bad: "[''text'' \<mapsto> PInt 5] \<in> set ?df \<and> [''text'' \<mapsto> PInt 5] ''text'' = Some (PInt 5) \<and>
      (\<forall>s. PInt 5 \<noteq> PStr s)"
    by simp
  have has_text: "\<forall>rw \<in> set ?df. rw ''text'' \<noteq> None"
    by simp
  note inst = batch_aborts_unless_caller_coerces
    [of "[''text'' \<mapsto> PInt 5]" ?df "PInt 5" offline_nlp ?df plain_rendering]
  have abort: "\<exists>e. batch_analyze_sentiment offline_nlp ?df = Inl e"
    using conjunct1[OF inst] bad by (rule mp)
  have "\<exists>items rows.
      upload_text_data plain_rendering ?df = Inr items \<and> length items = length ?df \<and>
      (\<forall>i < length ?df.
         (items ! i) ''text'' =
           map_option (\<lambda>v. PStr (py_str plain_rendering v)) ((?df ! i) ''text'')) \<and>
      batch_analyze_sentiment offline_nlp items = Inr rows \<and> length rows = length ?df"
    using conjunct2[OF inst] has_text by (rule mp)
  then obtain items rows where
    up: "upload_text_data plain_rendering ?df = Inr items"
    and nth: "\<And>i. i < 2 \<Longrightarrow>
        (items ! i) ''text'' =
          map_option (\<lambda>v. PStr (py_str plain_rendering v)) ((?df ! i) ''text'')"
    and run: "batch_analyze_sentiment offline_nlp items = Inr rows"
    and len: "length rows = 2"
    by auto
  have n0: "(items ! 0) ''text'' = Some (PStr ''table'')"
    using nth[of 0] by (simp add: py_str_def)
  have n1: "(items ! 1) ''text'' = Some (PStr ''?'')"
    using nth[of 1] by (simp add: py_str_def plain_rendering_def)
  have "\<exists>items rows.
      upload_text_data plain_rendering ?df = Inr items \<and>
      (items ! 0) ''text'' = Some (PStr ''table'') \<and>
      (items ! 1) ''text'' = Some (PStr ''?'') \<and>
      batch_analyze_sentiment offline_nlp items = Inr rows \<and> length rows = 2"
    using up n0 n1 run len by (intro exI[of _ items] exI[of _ rows] conjI)
  with abort show ?thesis by (rule conjI)
qed

text \<open>
  Claim C7, as amended.  In the row of each record, \<^verbatim>\<open>batch_analyze_sentiment\<close> puts
  the record's source and date and, when the record omits one of them, the fixed string
  \<open>N/A\<close> in its place (for the source as for the date).  The positional label
  \<^verbatim>\<open>Batch Input i+1\<close> is the work of the caller \<^verbatim>\<open>batch_text_analysis\<close>, which
  writes it into the source of record \<open>i\<close> before the orchestrator runs, when the user
  entered no source.
\<close>

theorem batch_default_source_date:
  "(batch_analyze_sentiment env texts = Inr rows \<and> i < length texts \<longrightarrow>
      map_of (rows ! i) ''source'' = Some (dict_get (texts ! i) ''source'' (PStr ''N/A'')) \<and>
      map_of (rows ! i) ''date'' = Some (dict_get (texts ! i) ''date'' (PStr ''N/A'')) \<and>
      ((texts ! i) ''source'' = None \<longrightarrow> map_of (rows ! i) ''source'' = Some (PStr ''N/A'')) \<and>
      ((texts ! i) ''date'' = None \<longrightarrow> map_of (rows ! i) ''date'' = Some (PStr ''N/A''))) \<and>
   (j < length ts \<longrightarrow>
      (batch_text_data [] d ts ! j) ''source'' =
        Some (PStr (''Batch Input '' @ str_of_nat (j + 1))))"
proof (intro conjI impI)
  assume a: "batch_analyze_sentiment env texts = Inr rows \<and> i < length texts"
  then have all: "list_all2 (\<lambda>item r. analyze_item env item = Inr r) texts rows"
    by (simp add: batch_rows)
  from a have "i < length texts" by simp
  then have "analyze_item env (texts ! i) = Inr (rows ! i)"
    by (rule list_all2_nthD[OF all])
  note row = analyze_item_row[OF this]
  from row show s: "map_of (rows ! i) ''source'' = Some (dict_get (texts ! i) ''source'' (PStr ''N/A''))"
    by simp
  from row show d: "map_of (rows ! i) ''date'' = Some (dict_get (texts ! i) ''date'' (PStr ''N/A''))"
    by simp
  { assume "(texts ! i) ''source'' = None"
    with s show "map_of (rows ! i) ''source'' = Some (PStr ''N/A'')"
      by (simp add: dict_get_def) }
  { assume "(texts ! i) ''date'' = None"
    with d show "map_of (rows ! i) ''date'' = Some (PStr ''N/A'')"
      by (simp add: dict_get_def) }
next
  assume "j < length ts"
  then show "(batch_text_data [] d ts ! j) ''source'' =
        Some (PStr (''Batch Input '' @ str_of_nat (j + 1)))"
    by (rule batch_text_data_source)
qed

theorem batch_default_source_counterexample:
  "batch_analyze_sentiment offline_nlp [[''text'' \<mapsto> PStr ''a''], [''text'' \<mapsto> PStr ''b'']] =
     Inr [[(''text'', PStr ''a''), (''sentiment'', PStr ''Neutral''), (''confidence'', PFloat 0),
           (''polarity'', PFloat 0), (''subjectivity'', PFloat 0), (''keywords'', PList []),
           (''source'', PStr ''N/A''), (''date'', PStr ''N/A'')],
          [(''text'', PStr ''b''), (''sentiment'', PStr ''Neutral''), (''confidence'', PFloat 0),
           (''polarity'', PFloat 0), (''subjectivity'', PFloat 0), (''keywords'', PList [''b'']),
           (''source'', PStr ''N/A''), (''date'', PStr ''N/A'')]]"
  by code_simp

theorem batch_default_source_date_witness:
  "\<exists>rows.
     batch_analyze_sentiment offline_nlp
       [[''text'' \<mapsto> PStr ''a''], [''text'' \<mapsto> PStr ''b'', ''source'' \<mapsto> PStr ''survey'']] =
       Inr rows \<and>
     map_of (rows ! 0) ''source'' = Some (PStr ''N/A'') \<and>
     map_of (rows ! 0) ''date'' = Some (PStr ''N/A'') \<and>
     map_of (rows ! 1) ''source'' = Some (PStr ''survey'') \<and>
     (batch_text_data [] ''2024-01-01'' [''a'', ''b''] ! 1) ''source'' =
       Some (PStr ''Batch Input 2'')"
proof -
  let ?texts = "[[''text'' \<mapsto> PStr ''a''], [''text'' \<mapsto> PStr ''b'', ''source'' \<mapsto> PStr ''survey'']]"
  have "\<forall>item \<in> set ?texts. \<exists>r. analyze_item offline_nlp item = Inr r"
    by (simp add: analyze_item_string)
  then have "\<exists>rows. batch_loop offline_nlp ?texts [] = Inr rows"
    by (rule batch_loop_total)
  then obtain rows where run: "batch_analyze_sentiment offline_nlp ?texts = Inr rows"
    by (auto simp: batch_analyze_sentiment_def)
  note inst0 = batch_default_source_date
    [of offline_nlp ?texts rows 0 1 "[''a'', ''b'']" "''2024-01-01''"]
  note inst1 = batch_default_source_date
    [of offline_nlp ?texts rows 1 1 "[''a'', ''b'']" "''2024-01-01''"]
  have r0: "map_of (rows ! 0) ''source'' = Some (PStr ''N/A'') \<and>
      map_of (rows ! 0) ''date'' = Some (PStr ''N/A'')"
    using conjunct1[OF inst0] run by (simp add: dict_get_def)
  have r1: "map_of (rows ! 1) ''source'' = Some (PStr ''survey'')"
    using conjunct1[OF inst1] run by (simp add: dict_get_def)
  have "str_of_nat (1 + 1) = ''2''"
    by code_simp
  then have b: "(batch_text_data [] ''2024-01-01'' [''a'', ''b''] ! 1) ''source'' =
       Some (PStr ''Batch Input 2'')"
    using conjunct2[OF inst1] by (simp del: str_of_nat.simps)
  from run r0 r1 b show ?thesis
    by (intro exI[of _ rows] conjI) simp_all
qed

text \<open>
  Claim C9, as amended.  Each row of the table returned by
  \<^verbatim>\<open>batch_analyze_sentiment\<close> has exactly the eight columns text, sentiment,
  confidence, polarity, subjectivity, keywords, source and date.  The ninth column,
  explanation, is added to every row by the callers in \<^verbatim>\<open>app.py\<close>, which always
  succeeds on such a table and yields rows with exactly the nine columns.
\<close>

theorem batch_columns_then_explanation:
  assumes "batch_analyze_sentiment env texts = Inr rows"
  shows "(\<forall>rw \<in> set rows.
            columns rw =
              [''text'', ''sentiment'', ''confidence'', ''polarity'', ''subjectivity'',
               ''keywords'', ''source'', ''date'']) \<and>
     (\<exists>rows'. add_explanations r rows = Inr rows' \<and> length rows' = length rows \<and>
        (\<forall>rw \<in> set rows'.
            columns rw =
              [''text'', ''sentiment'', ''confidence'', ''polarity'', ''subjectivity'',
               ''keywords'', ''source'', ''date'', ''explanation'']))"
proof -
  have rows: "\<forall>rw \<in> set rows. columns rw = batch_columns \<and> (\<exists>x. map_of rw ''polarity'' = Some (PFloat x))"
  proof
    fix rw assume "rw \<in> set rows"
    from batch_row_of_item[OF assms this] obtain item where "analyze_item env item = Inr rw"
      by blast
    from analyze_item_row[OF this]
    show "columns rw = batch_columns \<and> (\<exists>x. map_of rw ''polarity'' = Some (PFloat x))"
      by blast
  qed
  from add_explanations_rows[OF rows, of r] rows show ?thesis
    by (simp add: batch_columns_def)
qed

theorem batch_columns_counterexample:
  "(case batch_analyze_sentiment offline_nlp [[''text'' \<mapsto> PStr ''table'']] of
      Inl e \<Rightarrow> []
    | Inr rows \<Rightarrow> map columns rows) =
   [[''text'', ''sentiment'', ''confidence'', ''polarity'', ''subjectivity'', ''keywords'',
     ''source'', ''date'']]"
  by (simp add: batch_analyze_sentiment_def analyze_item_def analyze_string extract_keywords_eq
      offline_nlp_def columns_def)

theorem batch_columns_then_explanation_witness:
  "\<exists>rows rows'.
     batch_analyze_sentiment offline_nlp [[''text'' \<mapsto> PStr ''table'']] = Inr rows \<and>
     map columns rows =
       [[''text'', ''sentiment'', ''confidence'', ''polarity'', ''subjectivity'', ''keywords'',
         ''source'', ''date'']] \<and>
     add_explanations plain_rendering rows = Inr rows' \<and>
     map columns rows' =
       [[''text'', ''sentiment'', ''confidence'', ''polarity'', ''subjectivity'', ''keywords'',
         ''source'', ''date'', ''explanation'']]"
proof -
  obtain rows where run: "batch_analyze_sentiment offline_nlp [[''text'' \<mapsto> PStr ''table'']] = Inr rows"
    using batch_loop_total[of "[[''text'' \<mapsto> PStr ''table'']]" offline_nlp "[]"]
      analyze_item_string[of "[''text'' \<mapsto> PStr ''table'']" "''table''" offline_nlp]
    by (auto simp: batch_analyze_sentiment_def)
  then have len: "length rows = 1"
    using list_all2_lengthD[OF batch_rows[OF run]] by simp
  from batch_columns_then_explanation[OF run, of plain_rendering]
  obtain rows' where a: "\<forall>rw \<in> set rows.
            columns rw =
              [''text'', ''sentiment'', ''confidence'', ''polarity'', ''subjectivity'',
               ''keywords'', ''source'', ''date'']"
    and b: "add_explanations plain_rendering rows = Inr rows'" "length rows' = length rows"
    and c: "\<forall>rw \<in> set rows'.
            columns rw =
              [''text'', ''sentiment'', ''confidence'', ''polarity'', ''subjectivity'',
               ''keywords'', ''source'', ''date'', ''explanation'']"
    by blast
  from len obtain r1 where r1: "rows = [r1]"
    by (cases rows) auto
  from len b(2) obtain r2 where r2: "rows' = [r2]"
    by (cases rows') auto
  from a c r1 r2 run b(1) show ?thesis by auto
qed

section \<open>Properties of the summary metrics\<close>

text \<open>
  Claim C6, as amended.  For an empty result collection
  \<^verbatim>\<open>create_sentiment_metrics_summary\<close> does not fail, and it returns the empty
  dictionary: the result has no column, so that looking up a count, a percentage or an
  average in it finds nothing (it is not a record of zero-valued metrics).
\<close>

theorem metrics_summary_empty:
  "df_empty df \<longrightarrow>
     (\<exists>m. create_sentiment_metrics_summary df = Inr m \<and> columns m = [] \<and>
          map_of m ''total_texts'' = None \<and> map_of m ''positive_count'' = None \<and>
          map_of m ''positive_pct'' = None \<and> map_of m ''avg_confidence'' = None)"
  by (simp add: create_sentiment_metrics_summary_def columns_def)

theorem metrics_summary_empty_counterexample:
  "create_sentiment_metrics_summary [] = Inr []"
  by (simp add: create_sentiment_metrics_summary_def df_empty_def)

theorem metrics_summary_empty_witness:
  "df_empty [] \<and> create_sentiment_metrics_summary [] = Inr [] \<and>
   df_empty [[]] \<and> create_sentiment_metrics_summary [[]] = Inr []"
proof -
  have e1: "df_empty []" by (simp add: df_empty_def)
  have e2: "df_empty [[]]" by (simp add: df_empty_def df_columns_def columns_def)
  from mp[OF metrics_summary_empty[of "[]"] e1] mp[OF metrics_summary_empty[of "[[]]"] e2] e1 e2
  show ?thesis by (auto simp: columns_def)
qed

end
